(* ===== verification/Prelude.thy ===== *)
theory Prelude
  imports Main "HOL-Library.Multiset"
begin

text \<open>
  Shared vocabulary of the dashboard development: the fact collections the
  component theories register their evaluation rules in, and generic lemmas on
  lists, sums and multisets that the aggregation and grouping proofs of the
  chart builders share (grouping a list by a key loses and duplicates nothing,
  sums of 0/1 columns count the ones).
\<close>

named_theorems frame_eval "equations that evaluate the model on a concrete frame"

lemma sum_list_if_eq_distinct:
  assumes "distinct cs" and "k \<in> set cs"
  shows "(\<Sum>c\<leftarrow>cs. if k = c then (a :: 'b :: comm_monoid_add) else 0) = a"
proof -
  have "(\<Sum>c\<leftarrow>cs. if k = c then a else 0) = (\<Sum>c\<in>set cs. if k = c then a else 0)"
    using assms(1) by (rule sum_list_distinct_conv_sum_set)
  also have "\<dots> = a"
    using assms(2) by simp
  finally show ?thesis .
qed

lemma mset_concat_map: "mset (concat (map g cs)) = (\<Sum>c\<leftarrow>cs. mset (g c))"
  by (induction cs) auto

text \<open>
  Splitting a list into one group per key, in any duplicate-free order of keys
  that covers every key that occurs, is a permutation of the list.
\<close>

lemma mset_group_by_key:
  assumes "distinct cs" and "f ` set xs \<subseteq> set cs"
  shows "mset (concat (map (\<lambda>c. filter (\<lambda>x. f x = c) xs) cs)) = mset xs"
  using assms(2)
proof (induction xs)
  case Nil
  then show ?case by (simp add: mset_concat_map)
next
  case (Cons x xs)
  have step: "mset (filter (\<lambda>y. f y = c) (x # xs))
      = (if f x = c then {#x#} else {#}) + mset (filter (\<lambda>y. f y = c) xs)" for c
    by simp
  have split: "(\<Sum>c\<leftarrow>cs. mset (filter (\<lambda>y. f y = c) (x # xs)))
      = (\<Sum>c\<leftarrow>cs. if f x = c then {#x#} else {#})
        + (\<Sum>c\<leftarrow>cs. mset (filter (\<lambda>y. f y = c) xs))"
    by (simp only: step sum_list_addf)
  have "(\<Sum>c\<leftarrow>cs. if f x = c then {#x#} else {#}) = {#x#}"
    using assms(1) Cons.prems by (intro sum_list_if_eq_distinct) auto
  with split Cons show ?case
    by (simp add: mset_concat_map)
qed

lemma sum_list_zero_one:
  assumes "\<forall>v \<in> set vs. v = 0 \<or> v = (1 :: int)"
  shows "sum_list vs = int (length (filter (\<lambda>v. v = 1) vs))"
  using assms by (induction vs) auto

lemma sum_list_map_mset_eq:
  assumes "mset xs = mset ys"
  shows "sum_list (map (f :: 'a \<Rightarrow> 'b :: comm_monoid_add) xs) = sum_list (map f ys)"
proof -
  have "sum_list (map f xs) = sum_mset (mset (map f xs))"
    by (simp only: sum_mset_sum_list)
  also have "\<dots> = sum_mset (mset (map f ys))"
    using assms by (simp only: mset_map)
  also have "\<dots> = sum_list (map f ys)"
    by (simp only: sum_mset_sum_list)
  finally show ?thesis .
qed

lemma sum_list_map_concat:
  "sum_list (map f (concat xss)) = (\<Sum>xs\<leftarrow>xss. sum_list (map f xs))"
  by (induction xss) auto

lemma zip_replicate_length:
  "length xs = n \<Longrightarrow> zip xs (replicate n c) = map (\<lambda>x. (x, c)) xs"
  by (induction xs arbitrary: n) (auto simp: Suc_length_conv)

lemma distinct_two_values_length:
  assumes "distinct xs" and "set xs \<subseteq> {a, b}"
  shows "length xs \<le> 2"
proof -
  have "length xs = card (set xs)"
    using assms(1) by (simp add: distinct_card)
  also have "\<dots> \<le> card {a, b}"
    using assms(2) by (simp add: card_mono)
  also have "\<dots> \<le> 2"
    by (simp add: card_insert_if)
  finally show ?thesis .
qed

lemma case_some_some_iff:
  "(case p of (Some a, Some b) \<Rightarrow> P a b | _ \<Rightarrow> False)
     \<longleftrightarrow> (\<exists>a b. p = (Some a, Some b) \<and> P a b)"
  by (cases p) (auto split: option.splits)

lemma sum_list_nonneg_filter:
  "sum_list (filter (\<lambda>v. 0 \<le> v) (vs :: int list)) \<ge> 0"
  by (induction vs) auto

end
