(* ===== verification/Dataset.thy ===== *)
theory Dataset
  imports Prelude
begin

text \<open>
  The dataset loaded at start-up (src/spacex-dash-app.py, lines 9--11): one row per
  launch with the four columns the dashboard reads, the frame as the ordered list of
  rows, the pandas column operations the app calls on it (\<open>Series.unique\<close>,
  \<open>Series.min\<close>, \<open>Series.max\<close>), and the payload bounds computed from it.
  The payload column is a float column in pandas: a missing cell is NaN, here
  \<open>None\<close>. \<open>min\<close> and \<open>max\<close> skip NaN cells (\<open>skipna=True\<close>) and give NaN,
  here \<open>None\<close>, when no cell is a number.
\<close>

record launch_record =
  launch_site :: string        \<comment> \<open>column \<open>'Launch Site'\<close>\<close>
  payload_mass :: "int option" \<comment> \<open>column \<open>'Payload Mass (kg)'\<close>, \<open>None\<close> for NaN\<close>
  outcome_class :: int         \<comment> \<open>column \<open>'class'\<close>: 1 success, 0 failure\<close>
  booster_category :: string   \<comment> \<open>column \<open>'Booster Version Category'\<close>\<close>

type_synonym frame = "launch_record list"

text \<open>
  \<open>Series.unique()\<close>: the distinct values in order of first appearance (pandas keeps
  a hash table of the values seen so far).
\<close>

fun pd_unique_from :: "'a list \<Rightarrow> 'a list \<Rightarrow> 'a list" where
  "pd_unique_from seen [] = []"
| "pd_unique_from seen (x # xs) =
     (if x \<in> set seen then pd_unique_from seen xs
      else x # pd_unique_from (x # seen) xs)"

definition pd_unique :: "'a list \<Rightarrow> 'a list" where
  "pd_unique xs = pd_unique_from [] xs"

text \<open>
  \<open>Series.min()\<close> and \<open>Series.max()\<close>: the NaN cells are dropped, the rest is
  reduced left to right; nothing left gives NaN, here \<open>None\<close>.
\<close>

fun dropna :: "int option list \<Rightarrow> int list" where
  "dropna [] = []"
| "dropna (None # xs) = dropna xs"
| "dropna (Some x # xs) = x # dropna xs"

definition col_min :: "int option list \<Rightarrow> int option" where
  "col_min col = (case dropna col of [] \<Rightarrow> None | x # xs \<Rightarrow> Some (fold min xs x))"

definition col_max :: "int option list \<Rightarrow> int option" where
  "col_max col = (case dropna col of [] \<Rightarrow> None | x # xs \<Rightarrow> Some (fold max xs x))"

definition min_payload :: "frame \<Rightarrow> int option" where
  "min_payload df = col_min (map payload_mass df)"

definition max_payload :: "frame \<Rightarrow> int option" where
  "max_payload df = col_max (map payload_mass df)"

text \<open>The payload masses that are numbers, in row order.\<close>

definition payload_values :: "frame \<Rightarrow> int list" where
  "payload_values df = dropna (map payload_mass df)"

text \<open>Well-formed data: the \<open>class\<close> column holds 0 or 1 only.\<close>

definition wf_frame :: "frame \<Rightarrow> bool" where
  "wf_frame df = list_all (\<lambda>r. outcome_class r = 0 \<or> outcome_class r = 1) df"

text \<open>The four-launch scenario of the specification, used by the witnesses.\<close>

definition scenario_df :: frame where
  "scenario_df =
    [\<lparr>launch_site = ''SiteA'', payload_mass = Some 500, outcome_class = 1, booster_category = ''v1.0''\<rparr>,
     \<lparr>launch_site = ''SiteA'', payload_mass = Some 1500, outcome_class = 0, booster_category = ''v1.0''\<rparr>,
     \<lparr>launch_site = ''SiteB'', payload_mass = Some 3000, outcome_class = 1, booster_category = ''v1.1''\<rparr>,
     \<lparr>launch_site = ''SiteB'', payload_mass = Some 9000, outcome_class = 0, booster_category = ''v1.1''\<rparr>]"

declare scenario_df_def [frame_eval] pd_unique_def [frame_eval]
  min_payload_def [frame_eval] max_payload_def [frame_eval]
  col_min_def [frame_eval] col_max_def [frame_eval] wf_frame_def [frame_eval]
  payload_values_def [frame_eval]

subsection \<open>pd_unique\<close>

lemma set_pd_unique_from: "set (pd_unique_from seen xs) = set xs - set seen"
  by (induction seen xs rule: pd_unique_from.induct) auto

lemma distinct_pd_unique_from: "distinct (pd_unique_from seen xs)"
  by (induction seen xs rule: pd_unique_from.induct) (auto simp: set_pd_unique_from)

lemma set_pd_unique [simp]: "set (pd_unique xs) = set xs"
  by (simp add: pd_unique_def set_pd_unique_from)

lemma distinct_pd_unique [simp]: "distinct (pd_unique xs)"
  by (simp add: pd_unique_def distinct_pd_unique_from)

lemma pd_unique_Nil [simp]: "pd_unique [] = []"
  by (simp add: pd_unique_def)

lemma pd_unique_from_snoc:
  "pd_unique_from seen (xs @ [x]) =
     pd_unique_from seen xs @ (if x \<in> set xs \<union> set seen then [] else [x])"
  by (induction seen xs rule: pd_unique_from.induct) auto

lemma pd_unique_snoc:
  "pd_unique (xs @ [x]) = pd_unique xs @ (if x \<in> set xs then [] else [x])"
  by (simp add: pd_unique_def pd_unique_from_snoc)

lemma pd_unique_from_map_inj:
  assumes "inj f"
  shows "pd_unique_from (map f seen) (map f xs) = map f (pd_unique_from seen xs)"
  using assms
  by (induction seen xs rule: pd_unique_from.induct) (auto simp: inj_image_mem_iff)

lemma pd_unique_map_inj:
  "inj f \<Longrightarrow> pd_unique (map f xs) = map f (pd_unique xs)"
  using pd_unique_from_map_inj [of f "[]"] by (simp add: pd_unique_def)

lemma wf_frame_class:
  "wf_frame df \<Longrightarrow> r \<in> set df \<Longrightarrow> outcome_class r = 0 \<or> outcome_class r = 1"
  by (simp add: wf_frame_def list_all_iff)

subsection \<open>Column minimum and maximum\<close>

lemma fold_min_eq_Min: "fold min xs x = Min (insert (x :: 'a :: linorder) (set xs))"
  using Min.set_eq_fold [of x xs] by simp

lemma fold_max_eq_Max: "fold max xs x = Max (insert (x :: 'a :: linorder) (set xs))"
  using Max.set_eq_fold [of x xs] by simp

lemma set_dropna [simp]: "set (dropna col) = {x. Some x \<in> set col}"
  by (induction col rule: dropna.induct) auto

lemma col_min_Min:
  "col_min col = (if dropna col = [] then None else Some (Min (set (dropna col))))"
  by (cases "dropna col") (simp_all add: col_min_def fold_min_eq_Min)

lemma col_max_Max:
  "col_max col = (if dropna col = [] then None else Some (Max (set (dropna col))))"
  by (cases "dropna col") (simp_all add: col_max_def fold_max_eq_Max)

lemma set_payload_values:
  "set (payload_values df) = {m. \<exists>r \<in> set df. payload_mass r = Some m}"
  by (auto simp: payload_values_def intro: rev_image_eqI)

lemma payload_within_bounds:
  assumes "min_payload df = Some lo" and "max_payload df = Some hi"
    and "r \<in> set df" and "payload_mass r = Some m"
  shows "lo \<le> m \<and> m \<le> hi"
proof -
  have m: "m \<in> set (payload_values df)"
    using assms(3,4) by (auto simp: set_payload_values)
  then have "payload_values df \<noteq> []" by auto
  then have "lo = Min (set (payload_values df))" and "hi = Max (set (payload_values df))"
    using assms(1,2)
    by (simp_all add: min_payload_def max_payload_def payload_values_def col_min_Min col_max_Max)
  with m show ?thesis by simp
qed

lemma min_payload_Some_iff:
  "min_payload df = Some lo
     \<longleftrightarrow> lo \<in> set (payload_values df) \<and> (\<forall>m \<in> set (payload_values df). lo \<le> m)"
proof (cases "payload_values df = []")
  case True
  then show ?thesis by (simp add: min_payload_def payload_values_def col_min_Min)
next
  case False
  then have "min_payload df = Some (Min (set (payload_values df)))"
    by (simp add: min_payload_def payload_values_def col_min_Min)
  with False show ?thesis
    by (auto intro: Min_eqI)
qed

lemma max_payload_Some_iff:
  "max_payload df = Some hi
     \<longleftrightarrow> hi \<in> set (payload_values df) \<and> (\<forall>m \<in> set (payload_values df). m \<le> hi)"
proof (cases "payload_values df = []")
  case True
  then show ?thesis by (simp add: max_payload_def payload_values_def col_max_Max)
next
  case False
  then have "max_payload df = Some (Max (set (payload_values df)))"
    by (simp add: max_payload_def payload_values_def col_max_Max)
  with False show ?thesis
    by (auto intro: Max_eqI)
qed

lemma payload_values_empty_iff:
  "payload_values df = [] \<longleftrightarrow> (\<forall>r \<in> set df. payload_mass r = None)"
proof
  assume empty: "payload_values df = []"
  show "\<forall>r \<in> set df. payload_mass r = None"
  proof
    fix r assume r: "r \<in> set df"
    show "payload_mass r = None"
    proof (cases "payload_mass r")
      case (Some m)
      with r have "m \<in> set (payload_values df)" by (auto simp: set_payload_values)
      with empty show ?thesis by simp
    qed
  qed
next
  assume "\<forall>r \<in> set df. payload_mass r = None"
  then have "set (payload_values df) = {}" by (auto simp: set_payload_values)
  then show "payload_values df = []" by simp
qed

text \<open>
  C9. The payload bounds of lines 10--11 in terms of the rows: the minimum is NaN
  (\<open>None\<close>) exactly when no row has a numeric payload; otherwise it is the payload of
  some row and at most every numeric payload; the maximum likewise. NaN cells take no
  part.
\<close>

theorem payload_bounds:
  "(min_payload df = None \<longleftrightarrow> (\<forall>r \<in> set df. payload_mass r = None))
   \<and> (max_payload df = None \<longleftrightarrow> (\<forall>r \<in> set df. payload_mass r = None))
   \<and> (min_payload df = Some lo \<longleftrightarrow>
        (\<exists>r \<in> set df. payload_mass r = Some lo)
        \<and> (\<forall>r \<in> set df. \<forall>m. payload_mass r = Some m \<longrightarrow> lo \<le> m))
   \<and> (max_payload df = Some hi \<longleftrightarrow>
        (\<exists>r \<in> set df. payload_mass r = Some hi)
        \<and> (\<forall>r \<in> set df. \<forall>m. payload_mass r = Some m \<longrightarrow> m \<le> hi))"
proof -
  have "min_payload df = None \<longleftrightarrow> payload_values df = []"
    and "max_payload df = None \<longleftrightarrow> payload_values df = []"
    by (simp_all add: min_payload_def max_payload_def payload_values_def col_min_Min col_max_Max)
  then show ?thesis
    by (auto simp: payload_values_empty_iff min_payload_Some_iff max_payload_Some_iff
                   set_payload_values)
qed

theorem payload_bounds_witness:
  "min_payload scenario_df = Some 500 \<and> max_payload scenario_df = Some 9000"
proof -
  note b = payload_bounds [of scenario_df 500 9000]
  have "(\<exists>r \<in> set scenario_df. payload_mass r = Some 500)
        \<and> (\<forall>r \<in> set scenario_df. \<forall>m. payload_mass r = Some m \<longrightarrow> 500 \<le> m)"
    and "(\<exists>r \<in> set scenario_df. payload_mass r = Some 9000)
        \<and> (\<forall>r \<in> set scenario_df. \<forall>m. payload_mass r = Some m \<longrightarrow> m \<le> 9000)"
    by (auto simp: scenario_df_def)
  with b show ?thesis by blast
qed

end
