(* ===== verification/Row_Filter.thy ===== *)
theory Row_Filter
  imports Dataset
begin

text \<open>
  The row selections the two callbacks make (src/spacex-dash-app.py, line 62 in
  \<open>get_pie_chart\<close>, lines 77--87 in \<open>get_scatter_plot\<close>), written the way pandas
  evaluates them: each comparison of a column with a scalar gives a boolean mask
  aligned with the rows, \<open>&\<close> combines masks elementwise, and \<open>df[mask]\<close> keeps
  the rows whose mask entry is true, in their original order.
  A comparison with NaN is false. Payload cells and slider bounds are
  \<open>int option\<close> with \<open>None\<close> for NaN: a missing payload cell, or the initial
  slider value when no payload cell is a number.
  The dropdown value is \<open>string option\<close>: \<open>None\<close> is the value of a cleared
  dropdown, and \<open>None == site\<close> is false for every row.
  Last, the specification's Filter Engine (section 4.1) as an abstract function
  over a site selector and an inclusive payload range.
\<close>

fun ge_bound :: "int option \<Rightarrow> int option \<Rightarrow> bool" where
  "ge_bound (Some m) (Some low) = (low \<le> m)"
| "ge_bound _ _ = False"

fun le_bound :: "int option \<Rightarrow> int option \<Rightarrow> bool" where
  "le_bound (Some m) (Some high) = (m \<le> high)"
| "le_bound _ _ = False"

definition site_mask :: "frame \<Rightarrow> string option \<Rightarrow> bool list" where
  "site_mask df entered_site = map (\<lambda>r. Some (launch_site r) = entered_site) df"

definition payload_ge_mask :: "frame \<Rightarrow> int option \<Rightarrow> bool list" where
  "payload_ge_mask df low = map (\<lambda>r. ge_bound (payload_mass r) low) df"

definition payload_le_mask :: "frame \<Rightarrow> int option \<Rightarrow> bool list" where
  "payload_le_mask df high = map (\<lambda>r. le_bound (payload_mass r) high) df"

definition mask_and :: "bool list \<Rightarrow> bool list \<Rightarrow> bool list" where
  "mask_and m1 m2 = map2 (\<and>) m1 m2"

definition df_where :: "frame \<Rightarrow> bool list \<Rightarrow> frame" where
  "df_where df keep = map fst (filter snd (zip df keep))"

text \<open>Python's f-string of the dropdown value: \<open>None\<close> prints as \<open>'None'\<close>.\<close>

definition py_str :: "string option \<Rightarrow> string" where
  "py_str v = (case v of None \<Rightarrow> ''None'' | Some s \<Rightarrow> s)"

text \<open>\<open>filtered_df\<close> of \<open>get_pie_chart\<close> (line 62).\<close>

definition pie_site_df :: "frame \<Rightarrow> string option \<Rightarrow> frame" where
  "pie_site_df df entered_site = df_where df (site_mask df entered_site)"

text \<open>\<open>df\<close> of \<open>get_scatter_plot\<close>: the all-sites branch (lines 79--80) and the
  one-site branch (lines 85--87).\<close>

definition scatter_all_df :: "frame \<Rightarrow> int option \<Rightarrow> int option \<Rightarrow> frame" where
  "scatter_all_df df low high =
     df_where df (mask_and (payload_ge_mask df low) (payload_le_mask df high))"

definition scatter_site_df :: "frame \<Rightarrow> string option \<Rightarrow> int option \<Rightarrow> int option \<Rightarrow> frame" where
  "scatter_site_df df entered_site low high =
     df_where df (mask_and (mask_and (site_mask df entered_site) (payload_ge_mask df low))
                           (payload_le_mask df high))"

text \<open>The frame the scatter callback plots, with its branch on the sentinel \<open>'ALL'\<close>
  (lines 77--87).\<close>

definition scatter_rows :: "frame \<Rightarrow> string option \<Rightarrow> int option \<times> int option \<Rightarrow> frame" where
  "scatter_rows df entered_site payload_range =
     (case payload_range of (low, high) \<Rightarrow>
        if entered_site = Some ''ALL'' then scatter_all_df df low high
        else scatter_site_df df entered_site low high)"

subsection \<open>The specification's Filter Engine\<close>

datatype site_selector = AllSites | OneSite string

definition selector_of :: "string \<Rightarrow> site_selector" where
  "selector_of v = (if v = ''ALL'' then AllSites else OneSite v)"

fun site_matches :: "site_selector \<Rightarrow> launch_record \<Rightarrow> bool" where
  "site_matches AllSites r = True"
| "site_matches (OneSite s) r = (launch_site r = s)"

definition in_range :: "int \<times> int \<Rightarrow> launch_record \<Rightarrow> bool" where
  "in_range rng r =
     (case payload_mass r of None \<Rightarrow> False | Some m \<Rightarrow> fst rng \<le> m \<and> m \<le> snd rng)"

definition filter_spec :: "frame \<Rightarrow> site_selector \<Rightarrow> int \<times> int \<Rightarrow> frame" where
  "filter_spec df sel rng = filter (\<lambda>r. site_matches sel r \<and> in_range rng r) df"

declare site_mask_def [frame_eval] payload_ge_mask_def [frame_eval]
  payload_le_mask_def [frame_eval] mask_and_def [frame_eval] df_where_def [frame_eval]
  pie_site_df_def [frame_eval] scatter_all_df_def [frame_eval]
  scatter_site_df_def [frame_eval] scatter_rows_def [frame_eval] py_str_def [frame_eval]

subsection \<open>Masks over the frame's own rows\<close>

lemma ge_bound_Some_iff [simp]: "ge_bound x (Some low) \<longleftrightarrow> (\<exists>m. x = Some m \<and> low \<le> m)"
  by (cases x) auto

lemma le_bound_Some_iff [simp]: "le_bound x (Some high) \<longleftrightarrow> (\<exists>m. x = Some m \<and> m \<le> high)"
  by (cases x) auto

lemma ge_bound_None [simp]: "\<not> ge_bound x None"
  by (cases x) auto

lemma le_bound_None [simp]: "\<not> le_bound x None"
  by (cases x) auto

lemma in_range_iff:
  "in_range (lo, hi) r \<longleftrightarrow> (\<exists>m. payload_mass r = Some m \<and> lo \<le> m \<and> m \<le> hi)"
  by (auto simp: in_range_def split: option.splits)

lemma df_where_map [simp]: "df_where df (map P df) = filter P df"
  by (induction df) (simp_all add: df_where_def)

lemma mask_and_map [simp]:
  "mask_and (map P df) (map Q df) = map (\<lambda>r. P r \<and> Q r) df"
  by (induction df) (simp_all add: mask_and_def)

lemma pie_site_df_filter:
  "pie_site_df df entered_site = filter (\<lambda>r. Some (launch_site r) = entered_site) df"
  by (simp add: pie_site_df_def site_mask_def)

lemma scatter_all_df_filter:
  "scatter_all_df df low high =
     filter (\<lambda>r. ge_bound (payload_mass r) low \<and> le_bound (payload_mass r) high) df"
  by (simp add: scatter_all_df_def payload_ge_mask_def payload_le_mask_def)

lemma scatter_site_df_filter:
  "scatter_site_df df entered_site low high =
     filter (\<lambda>r. Some (launch_site r) = entered_site \<and> ge_bound (payload_mass r) low
                 \<and> le_bound (payload_mass r) high) df"
  by (simp add: scatter_site_df_def site_mask_def payload_ge_mask_def payload_le_mask_def)

lemma scatter_rows_filter:
  "scatter_rows df entered_site (low, high) =
     filter (\<lambda>r. (entered_site = Some ''ALL'' \<or> Some (launch_site r) = entered_site)
                 \<and> ge_bound (payload_mass r) low \<and> le_bound (payload_mass r) high) df"
  by (simp add: scatter_rows_def scatter_all_df_filter scatter_site_df_filter)

lemmas row_selection_filter =
  pie_site_df_filter scatter_all_df_filter scatter_site_df_filter scatter_rows_filter

subsection \<open>Properties of the selections\<close>

text \<open>
  C1. Refinement: for a selected dropdown value and a finite slider range, the
  frame \<open>get_scatter_plot\<close> plots is exactly the specification's
  \<open>filter(records, site_selector, payload_range)\<close>, with \<open>'ALL'\<close> read as the
  "all sites" sentinel, rows kept in dataset order.
\<close>

theorem scatter_rows_refines_filter_spec:
  "scatter_rows df (Some v) (Some lo, Some hi) = filter_spec df (selector_of v) (lo, hi)"
  by (cases "v = ''ALL''")
     (auto simp: scatter_rows_filter filter_spec_def selector_of_def in_range_iff
           intro!: filter_cong)

text \<open>
  C7. Range soundness: every row the scatter callback plots has its payload mass
  within the slider range \<open>[low, high]\<close>, whatever the dropdown value.
\<close>

theorem scatter_rows_in_range:
  assumes "r \<in> set (scatter_rows df v (Some lo, Some hi))"
  shows "\<exists>m. payload_mass r = Some m \<and> lo \<le> m \<and> m \<le> hi"
  using assms by (auto simp: scatter_rows_filter)

theorem scatter_rows_in_range_witness:
  "hd scenario_df \<in> set (scatter_rows scenario_df (Some ''ALL'') (Some 0, Some 10000))
   \<and> (\<exists>m. payload_mass (hd scenario_df) = Some m \<and> 0 \<le> m \<and> m \<le> 10000)"
proof -
  have h: "hd scenario_df \<in> set (scatter_rows scenario_df (Some ''ALL'') (Some 0, Some 10000))"
    by (simp add: scenario_df_def scatter_rows_filter)
  show ?thesis using h scatter_rows_in_range [OF h] by simp
qed

text \<open>
  C8. Inclusive bounds: a row of the dataset whose site matches the dropdown value
  and whose payload mass equals the lower or the upper slider value is plotted.
\<close>

theorem scatter_rows_boundary_included:
  assumes "r \<in> set df" and "v = ''ALL'' \<or> launch_site r = v"
    and "payload_mass r = Some lo \<or> payload_mass r = Some hi" and "lo \<le> hi"
  shows "r \<in> set (scatter_rows df (Some v) (Some lo, Some hi))"
  using assms by (auto simp: scatter_rows_filter)

theorem scatter_rows_boundary_included_witness:
  "hd scenario_df \<in> set (scatter_rows scenario_df (Some ''SiteA'') (Some 500, Some 1000))"
proof -
  have "hd scenario_df \<in> set scenario_df" and "launch_site (hd scenario_df) = ''SiteA''"
    and "payload_mass (hd scenario_df) = Some 500" by (simp_all add: scenario_df_def)
  then show ?thesis
    by (intro scatter_rows_boundary_included) simp_all
qed

text \<open>
  C13. A crossed range (the lower handle above the upper one) selects nothing: the
  specification's "treat out-of-domain values as no match".
\<close>

theorem scatter_rows_crossed_range:
  assumes "hi < lo"
  shows "scatter_rows df v (Some lo, Some hi) = []"
  using assms by (auto simp: scatter_rows_filter filter_empty_conv)

theorem scatter_rows_crossed_range_witness:
  "scatter_rows scenario_df (Some ''ALL'') (Some 5000, Some 1000) = []"
  by (rule scatter_rows_crossed_range) simp

text \<open>
  C14. Narrowing the slider range narrows the plotted frame: the rows for
  \<open>[lo, hi]\<close> are the rows for any wider range \<open>[lo', hi']\<close>, filtered by
  \<open>[lo, hi]\<close>, in the same order.
\<close>

theorem scatter_rows_narrow:
  assumes "lo' \<le> lo" and "hi \<le> hi'"
  shows "scatter_rows df v (Some lo, Some hi)
       = filter (in_range (lo, hi)) (scatter_rows df v (Some lo', Some hi'))"
  using assms by (auto simp: scatter_rows_filter in_range_iff intro: filter_cong)

theorem scatter_rows_narrow_witness:
  "scatter_rows scenario_df (Some ''ALL'') (Some 2000, Some 10000)
   = filter (in_range (2000, 10000)) (scatter_rows scenario_df (Some ''ALL'') (Some 0, Some 10000))"
  by (rule scatter_rows_narrow) simp_all

text \<open>
  C15. The two callbacks agree on a site: in one-site mode the scatter frame is the
  pie callback's \<open>filtered_df\<close> restricted to the slider range.
\<close>

theorem scatter_rows_site_is_pie_subset:
  assumes "v \<noteq> ''ALL''"
  shows "scatter_rows df (Some v) (Some lo, Some hi)
       = filter (in_range (lo, hi)) (pie_site_df df (Some v))"
  using assms by (auto simp: scatter_rows_filter pie_site_df_filter in_range_iff
                        intro: filter_cong)

theorem scatter_rows_site_is_pie_subset_witness:
  "''SiteA'' \<noteq> ''ALL''
   \<and> scatter_rows scenario_df (Some ''SiteA'') (Some 0, Some 1000)
     = filter (in_range (0, 1000)) (pie_site_df scenario_df (Some ''SiteA''))"
  using scatter_rows_site_is_pie_subset [of "''SiteA''" scenario_df 0 1000] by simp

text \<open>
  C21. A launch whose payload cell is NaN is never plotted by the scatter callback,
  whatever the dropdown and the slider: every comparison with NaN is false. (The pie
  callback still counts it.)
\<close>

theorem scatter_rows_drop_nan:
  assumes "payload_mass r = None"
  shows "r \<notin> set (scatter_rows df v rng)"
  using assms by (cases rng) (simp add: scatter_rows_filter)

theorem scatter_rows_drop_nan_witness:
  "\<lparr>launch_site = ''SiteA'', payload_mass = None, outcome_class = 1, booster_category = ''v1.0''\<rparr>
     \<notin> set (scatter_rows
               [\<lparr>launch_site = ''SiteA'', payload_mass = None, outcome_class = 1,
                  booster_category = ''v1.0''\<rparr>]
               (Some ''ALL'') (Some 0, Some 10000))"
  by (rule scatter_rows_drop_nan) simp

end
