(* ===== verification/Pie.thy ===== *)
theory Pie
  imports Row_Filter
begin

text \<open>
  The pie chart callback \<open>get_pie_chart\<close> (src/spacex-dash-app.py, lines 50--66)
  and the chart it hands to the browser. \<open>px.pie(df, names=N, values=V)\<close> passes
  the column \<open>N\<close> as slice labels and \<open>V\<close> as slice values; plotly's pie trace then
  aggregates: one slice per distinct label in order of first appearance, the values
  of equal labels summed, a row with a negative value skipped, every row counted as 1
  when no \<open>values\<close> column is given, and the slices sorted by decreasing value
  (\<open>sort=True\<close>, a stable sort). The labels of the two modes are a site name or a
  \<open>class\<close> value: one datatype \<open>cell\<close> of both.
  \<open>pie_ref\<close> is the reference definition of the aggregation (group, then sum),
  against which the incremental one is proved equal.
\<close>

datatype cell = CStr string | CInt int

record pie_figure =
  pie_slices :: "(cell \<times> int) list"
  pie_title :: string

fun pie_add :: "('l \<times> int) list \<Rightarrow> 'l \<Rightarrow> int \<Rightarrow> ('l \<times> int) list" where
  "pie_add [] l v = [(l, v)]"
| "pie_add ((l', w) # cd) l v =
     (if l' = l then (l', w + v) # cd else (l', w) # pie_add cd l v)"

fun pie_calc_from :: "('l \<times> int) list \<Rightarrow> ('l \<times> int) list \<Rightarrow> ('l \<times> int) list" where
  "pie_calc_from cd [] = cd"
| "pie_calc_from cd ((l, v) # pts) =
     (if v < 0 then pie_calc_from cd pts else pie_calc_from (pie_add cd l v) pts)"

definition pie_calc :: "('l \<times> int) list \<Rightarrow> ('l \<times> int) list" where
  "pie_calc pts = pie_calc_from [] pts"

definition pie_sort :: "('l \<times> int) list \<Rightarrow> ('l \<times> int) list" where
  "pie_sort cd = sort_key (\<lambda>p. - snd p) cd"

definition px_pie :: "cell list \<Rightarrow> int list option \<Rightarrow> string \<Rightarrow> pie_figure" where
  "px_pie names values title =
     (let vs = (case values of None \<Rightarrow> replicate (length names) 1 | Some vs \<Rightarrow> vs)
      in \<lparr>pie_slices = pie_sort (pie_calc (zip names vs)), pie_title = title\<rparr>)"

definition get_pie_chart :: "frame \<Rightarrow> string option \<Rightarrow> pie_figure" where
  "get_pie_chart spacex_df entered_site =
     (if entered_site = Some ''ALL'' then
        px_pie (map (\<lambda>r. CStr (launch_site r)) spacex_df)
               (Some (map outcome_class spacex_df))
               ''Total Success Launches by Site''
      else
        (let filtered_df = pie_site_df spacex_df entered_site
         in px_pie (map (\<lambda>r. CInt (outcome_class r)) filtered_df) None
                   (''Success vs Failure for '' @ py_str entered_site)))"

subsection \<open>Reference aggregation\<close>

definition pie_valid :: "('l \<times> int) list \<Rightarrow> ('l \<times> int) list" where
  "pie_valid pts = filter (\<lambda>p. 0 \<le> snd p) pts"

definition label_total :: "('l \<times> int) list \<Rightarrow> 'l \<Rightarrow> int" where
  "label_total pts l = sum_list (map snd (filter (\<lambda>p. fst p = l) (pie_valid pts)))"

definition pie_ref :: "('l \<times> int) list \<Rightarrow> ('l \<times> int) list" where
  "pie_ref pts = map (\<lambda>l. (l, label_total pts l)) (pd_unique (map fst (pie_valid pts)))"

definition success_count :: "frame \<Rightarrow> string \<Rightarrow> nat" where
  "success_count df s = length (filter (\<lambda>r. launch_site r = s \<and> outcome_class r = 1) df)"

declare pie_calc_def [frame_eval] pie_sort_def [frame_eval] px_pie_def [frame_eval]
  get_pie_chart_def [frame_eval]

subsection \<open>The incremental aggregation computes the reference one\<close>

lemma pie_add_map_distinct:
  assumes "distinct ks"
  shows "pie_add (map (\<lambda>k. (k, g k)) ks) l v =
     (if l \<in> set ks then map (\<lambda>k. (k, if k = l then g k + v else g k)) ks
      else map (\<lambda>k. (k, g k)) ks @ [(l, v)])"
  using assms by (induction ks) auto

lemma label_total_snoc:
  "0 \<le> v \<Longrightarrow> label_total (qs @ [(l, v)]) k = label_total qs k + (if k = l then v else 0)"
  by (simp add: label_total_def pie_valid_def)

lemma label_total_absent:
  "l \<notin> set (map fst (pie_valid qs)) \<Longrightarrow> label_total qs l = 0"
proof -
  assume "l \<notin> set (map fst (pie_valid qs))"
  then have "filter (\<lambda>p. fst p = l) (pie_valid qs) = []"
    by (auto simp: filter_empty_conv)
  then show ?thesis by (simp add: label_total_def)
qed

lemma pie_ref_snoc:
  assumes "0 \<le> v"
  shows "pie_ref (qs @ [(l, v)]) = pie_add (pie_ref qs) l v"
proof -
  let ?ks = "pd_unique (map fst (pie_valid qs))"
  have valid: "pie_valid (qs @ [(l, v)]) = pie_valid qs @ [(l, v)]"
    using assms by (simp add: pie_valid_def)
  have add: "pie_add (pie_ref qs) l v =
     (if l \<in> set ?ks then map (\<lambda>k. (k, if k = l then label_total qs k + v else label_total qs k)) ?ks
      else map (\<lambda>k. (k, label_total qs k)) ?ks @ [(l, v)])"
    unfolding pie_ref_def by (rule pie_add_map_distinct) simp
  show ?thesis
  proof (cases "l \<in> set ?ks")
    case True
    then have lhs: "pie_add (pie_ref qs) l v
        = map (\<lambda>k. (k, if k = l then label_total qs k + v else label_total qs k)) ?ks"
      by (simp only: add if_True)
    from True have "l \<in> set (map fst (pie_valid qs))" by simp
    then have "pie_ref (qs @ [(l, v)])
        = map (\<lambda>k. (k, label_total qs k + (if k = l then v else 0))) ?ks"
      using assms by (simp add: pie_ref_def valid pd_unique_snoc label_total_snoc)
    with lhs show ?thesis by simp
  next
    case False
    then have lhs: "pie_add (pie_ref qs) l v = map (\<lambda>k. (k, label_total qs k)) ?ks @ [(l, v)]"
      by (simp only: add if_False)
    from False have absent: "l \<notin> set (map fst (pie_valid qs))" by simp
    then have "pie_ref (qs @ [(l, v)])
        = map (\<lambda>k. (k, label_total qs k + (if k = l then v else 0))) ?ks
          @ [(l, label_total qs l + v)]"
      using assms by (simp add: pie_ref_def valid pd_unique_snoc label_total_snoc)
    also have "\<dots> = map (\<lambda>k. (k, label_total qs k)) ?ks @ [(l, v)]"
      using absent by (auto simp: label_total_absent)
    finally show ?thesis by (simp only: lhs)
  qed
qed

lemma pie_ref_skip:
  "v < 0 \<Longrightarrow> pie_ref (qs @ (l, v) # pts) = pie_ref (qs @ pts)"
  by (simp add: pie_ref_def label_total_def pie_valid_def)

lemma pie_calc_from_ref:
  "pie_calc_from (pie_ref qs) pts = pie_ref (qs @ pts)"
proof (induction pts arbitrary: qs)
  case Nil
  then show ?case by simp
next
  case (Cons p pts)
  obtain l v where p: "p = (l, v)" by (cases p)
  show ?case
  proof (cases "v < 0")
    case True
    then show ?thesis by (simp add: p Cons.IH pie_ref_skip)
  next
    case False
    then have "pie_calc_from (pie_ref qs) (p # pts) = pie_calc_from (pie_ref (qs @ [(l, v)])) pts"
      by (simp add: p pie_ref_snoc)
    then show ?thesis by (simp add: Cons.IH p)
  qed
qed

lemma pie_ref_Nil [simp]: "pie_ref [] = []"
  by (simp add: pie_ref_def pie_valid_def)

lemma pie_calc_ref: "pie_calc pts = pie_ref pts"
  using pie_calc_from_ref [of "[]" pts] by (simp add: pie_calc_def)

subsection \<open>Shape of the aggregated slices\<close>

lemma map_fst_pie_ref: "map fst (pie_ref pts) = pd_unique (map fst (pie_valid pts))"
  by (simp add: pie_ref_def comp_def)

lemma distinct_labels_pie_ref: "distinct (map fst (pie_ref pts))"
  by (simp add: map_fst_pie_ref)

lemma mset_pie_sort [simp]: "mset (pie_sort cd) = mset cd"
  by (simp add: pie_sort_def)

lemma set_pie_sort [simp]: "set (pie_sort cd) = set cd"
  by (simp add: pie_sort_def)

lemma pie_sort_Nil [simp]: "pie_sort [] = []"
  by (simp add: pie_sort_def)

lemma sorted_pie_sort: "sorted (map (\<lambda>p. - snd p) (pie_sort cd))"
  by (simp add: pie_sort_def)

lemma distinct_labels_pie_sort:
  "distinct (map fst (pie_sort cd)) = distinct (map fst cd)"
  by (rule mset_eq_imp_distinct_iff) simp

lemma sum_pie_sort: "sum_list (map snd (pie_sort cd)) = sum_list (map snd cd)"
  by (rule sum_list_map_mset_eq) simp

lemma pie_ref_total: "sum_list (map snd (pie_ref pts)) = sum_list (map snd (pie_valid pts))"
proof -
  let ?V = "pie_valid pts" and ?ks = "pd_unique (map fst (pie_valid pts))"
  have "sum_list (map snd (pie_ref pts))
      = sum_list (map snd (concat (map (\<lambda>k. filter (\<lambda>p. fst p = k) ?V) ?ks)))"
    by (simp add: pie_ref_def label_total_def sum_list_map_concat comp_def)
  also have "\<dots> = sum_list (map snd ?V)"
    by (rule sum_list_map_mset_eq, rule mset_group_by_key) auto
  finally show ?thesis .
qed

lemma pie_slices_px_pie:
  "pie_slices (px_pie names values title) =
     pie_sort (pie_ref (zip names (case values of None \<Rightarrow> replicate (length names) 1 | Some vs \<Rightarrow> vs)))"
  by (simp add: px_pie_def pie_calc_ref Let_def)

lemma pie_title_px_pie: "pie_title (px_pie names values title) = title"
  by (simp add: px_pie_def Let_def)

text \<open>
  C2. What \<open>px.pie\<close> hands to the browser: one slice per label that carries a valid
  (non-negative) value, no label twice, each slice the sum of its label's values, and
  the slices in decreasing order of size.
\<close>

theorem px_pie_aggregates:
  "set (pie_slices (px_pie names (Some vs) title))
     = (\<lambda>l. (l, label_total (zip names vs) l)) ` fst ` set (pie_valid (zip names vs))
   \<and> distinct (map fst (pie_slices (px_pie names (Some vs) title)))
   \<and> sorted (map (\<lambda>p. - snd p) (pie_slices (px_pie names (Some vs) title)))"
  by (simp add: pie_slices_px_pie pie_ref_def distinct_labels_pie_sort sorted_pie_sort
                comp_def image_image)

subsection \<open>The two modes of the callback\<close>

lemma inj_CStr: "inj CStr"
  by (auto intro: injI)

lemma pie_slices_all_sites:
  "pie_slices (get_pie_chart df (Some ''ALL'')) =
     pie_sort (pie_ref (map (\<lambda>r. (CStr (launch_site r), outcome_class r)) df))"
  by (simp add: get_pie_chart_def pie_slices_px_pie zip_map_map zip_same_conv_map comp_def)

lemma pie_slices_one_site:
  "entered_site \<noteq> Some ''ALL'' \<Longrightarrow> pie_slices (get_pie_chart df entered_site) =
     pie_sort (pie_ref (map (\<lambda>r. (CInt (outcome_class r), 1)) (pie_site_df df entered_site)))"
  by (simp add: get_pie_chart_def pie_slices_px_pie Let_def zip_replicate_length comp_def)

lemma pie_valid_all_sites:
  "wf_frame df \<Longrightarrow> pie_valid (map (\<lambda>r. (CStr (launch_site r), outcome_class r)) df)
     = map (\<lambda>r. (CStr (launch_site r), outcome_class r)) df"
  by (auto simp: pie_valid_def filter_id_conv dest: wf_frame_class)

lemma label_total_site:
  assumes "wf_frame df"
  shows "label_total (map (\<lambda>r. (CStr (launch_site r), outcome_class r)) df) (CStr s)
       = int (success_count df s)"
proof -
  let ?rows = "filter (\<lambda>r. launch_site r = s) df"
  have "label_total (map (\<lambda>r. (CStr (launch_site r), outcome_class r)) df) (CStr s)
      = sum_list (map outcome_class ?rows)"
    using assms by (simp add: label_total_def pie_valid_all_sites filter_map comp_def)
  also have "\<dots> = int (length (filter (\<lambda>v. v = 1) (map outcome_class ?rows)))"
    using assms by (intro sum_list_zero_one) (auto dest: wf_frame_class)
  also have "\<dots> = int (success_count df s)"
    by (simp add: success_count_def filter_map filter_filter comp_def)
  finally show ?thesis .
qed

lemma pie_valid_one_site:
  "pie_valid (map (\<lambda>r. (CInt (outcome_class r), 1 :: int)) rows)
     = map (\<lambda>r. (CInt (outcome_class r), 1)) rows"
  by (simp add: pie_valid_def filter_id_conv)

text \<open>
  C4. All-sites mode: the pie has one slice per distinct launch site of the dataset
  (first-appearance order, then sorted by size), and each slice's value is the number
  of successful launches from that site; the title is the all-sites title.
\<close>

theorem get_pie_chart_all_sites:
  assumes "wf_frame df"
  shows "pie_slices (get_pie_chart df (Some ''ALL''))
       = pie_sort (map (\<lambda>s. (CStr s, int (success_count df s))) (pd_unique (map launch_site df)))
     \<and> pie_title (get_pie_chart df (Some ''ALL'')) = ''Total Success Launches by Site''"
proof -
  let ?pts = "map (\<lambda>r. (CStr (launch_site r), outcome_class r)) df"
  have keys: "pd_unique (map fst (pie_valid ?pts)) = map CStr (pd_unique (map launch_site df))"
    using assms by (simp add: pie_valid_all_sites pd_unique_map_inj [OF inj_CStr, symmetric]
                              comp_def)
  have "pie_ref ?pts = map (\<lambda>s. (CStr s, int (success_count df s))) (pd_unique (map launch_site df))"
    by (simp add: pie_ref_def keys label_total_site [OF assms])
  then have "pie_slices (get_pie_chart df (Some ''ALL''))
      = pie_sort (map (\<lambda>s. (CStr s, int (success_count df s))) (pd_unique (map launch_site df)))"
    by (simp only: pie_slices_all_sites)
  moreover have "pie_title (get_pie_chart df (Some ''ALL'')) = ''Total Success Launches by Site''"
    by (simp add: get_pie_chart_def pie_title_px_pie)
  ultimately show ?thesis ..
qed

theorem get_pie_chart_all_sites_witness:
  "pie_slices (get_pie_chart scenario_df (Some ''ALL'')) = [(CStr ''SiteA'', 1), (CStr ''SiteB'', 1)]"
proof -
  have wf: "wf_frame scenario_df"
    by (simp add: wf_frame_def scenario_df_def)
  show ?thesis
    using get_pie_chart_all_sites [OF wf]
    by (simp add: scenario_df_def success_count_def pie_sort_def pd_unique_def)
qed

text \<open>
  C5. One-site mode: the pie has at most two slices, labelled by the \<open>class\<close>
  values 0 and 1 only, and their values add up to the number of launches from the
  selected site.
\<close>

theorem get_pie_chart_one_site:
  assumes "wf_frame df" and "v \<noteq> ''ALL''"
  shows "length (pie_slices (get_pie_chart df (Some v))) \<le> 2
     \<and> fst ` set (pie_slices (get_pie_chart df (Some v))) \<subseteq> {CInt 0, CInt 1}
     \<and> sum_list (map snd (pie_slices (get_pie_chart df (Some v))))
         = int (length (filter (\<lambda>r. launch_site r = v) df))"
proof -
  let ?rows = "pie_site_df df (Some v)"
  let ?pts = "map (\<lambda>r. (CInt (outcome_class r), 1 :: int)) ?rows"
  let ?sl = "pie_slices (get_pie_chart df (Some v))"
  have sl: "?sl = pie_sort (pie_ref ?pts)"
    using assms(2) by (simp add: pie_slices_one_site)
  have "set ?rows \<subseteq> set df"
    by (simp add: pie_site_df_filter)
  then have labels: "fst ` set ?sl \<subseteq> {CInt 0, CInt 1}"
    using assms(1) by (auto simp: sl pie_ref_def pie_valid_one_site dest: wf_frame_class)
  have "distinct (map fst ?sl)"
    by (simp add: sl distinct_labels_pie_sort distinct_labels_pie_ref)
  with labels have "length (map fst ?sl) \<le> 2"
    by (intro distinct_two_values_length) auto
  moreover have "sum_list (map snd ?sl) = int (length ?rows)"
    by (simp add: sl sum_pie_sort pie_ref_total pie_valid_one_site comp_def sum_list_triv)
  moreover have "?rows = filter (\<lambda>r. launch_site r = v) df"
    by (simp add: pie_site_df_filter)
  ultimately show ?thesis
    using labels by simp
qed

theorem get_pie_chart_one_site_witness:
  "length (pie_slices (get_pie_chart scenario_df (Some ''SiteA''))) \<le> 2
   \<and> fst ` set (pie_slices (get_pie_chart scenario_df (Some ''SiteA''))) \<subseteq> {CInt 0, CInt 1}
   \<and> sum_list (map snd (pie_slices (get_pie_chart scenario_df (Some ''SiteA'')))) = 2"
proof -
  have wf: "wf_frame scenario_df"
    by (simp add: wf_frame_def scenario_df_def)
  have "length (filter (\<lambda>r. launch_site r = ''SiteA'') scenario_df) = 2"
    by (simp add: scenario_df_def)
  then show ?thesis
    using get_pie_chart_one_site [OF wf, of "''SiteA''"] by simp
qed

text \<open>
  C19. All-sites mode conserves the successes: the slice values add up to the number
  of successful launches in the whole dataset.
\<close>

theorem get_pie_chart_all_sites_total:
  assumes "wf_frame df"
  shows "sum_list (map snd (pie_slices (get_pie_chart df (Some ''ALL''))))
       = int (length (filter (\<lambda>r. outcome_class r = 1) df))"
proof -
  have "sum_list (map snd (pie_slices (get_pie_chart df (Some ''ALL''))))
      = sum_list (map outcome_class df)"
    using assms by (simp add: pie_slices_all_sites sum_pie_sort pie_ref_total
                              pie_valid_all_sites comp_def)
  also have "\<dots> = int (length (filter (\<lambda>v. v = 1) (map outcome_class df)))"
    using assms by (intro sum_list_zero_one) (auto dest: wf_frame_class)
  also have "\<dots> = int (length (filter (\<lambda>r. outcome_class r = 1) df))"
    by (simp add: filter_map comp_def)
  finally show ?thesis .
qed

theorem get_pie_chart_all_sites_total_witness:
  "sum_list (map snd (pie_slices (get_pie_chart scenario_df (Some ''ALL'')))) = 2"
proof -
  have wf: "wf_frame scenario_df"
    by (simp add: wf_frame_def scenario_df_def)
  show ?thesis
    using get_pie_chart_all_sites_total [OF wf] by (simp add: scenario_df_def)
qed

text \<open>
  C12. A site value that no launch has gives a pie with no slice: the empty-state
  chart the specification leaves open (section 4.2) is plotly's empty pie.
\<close>

theorem get_pie_chart_unknown_site:
  assumes "v \<noteq> ''ALL''" and "v \<notin> launch_site ` set df"
  shows "pie_slices (get_pie_chart df (Some v)) = []"
proof -
  have "pie_site_df df (Some v) = []"
    using assms(2) by (auto simp: pie_site_df_filter filter_empty_conv)
  then show ?thesis
    using assms(1) by (simp add: pie_slices_one_site)
qed

theorem get_pie_chart_unknown_site_witness:
  "pie_slices (get_pie_chart scenario_df (Some ''SiteC'')) = []"
  by (rule get_pie_chart_unknown_site) (simp_all add: scenario_df_def)

end
