(* ===== verification/Pie_Spec.thy ===== *)
theory Pie_Spec
  imports Pie
begin

text \<open>
  The specification's Pie Chart Builder (section 4.2),
  \<open>buildOutcomeDistribution(subset, site_selector)\<close>, as a map from slice labels to
  slice values: for all sites, one slice per site of the subset valued by its
  successful launches; for one site, one slice per outcome present valued by its
  number of launches. The pie the code builds is read as such a map through
  \<open>map_of\<close> (its labels are distinct, so the order of the slices is forgotten).
  The subset the code hands to the builder is the site selection only: no payload
  range (see \<open>pie_ignores_slider\<close>).
  Last, the well-typedness of a pie figure: non-negative slice values, labels that are
  site names in all-sites mode and \<open>class\<close> values otherwise.
\<close>

definition outcome_count :: "frame \<Rightarrow> int \<Rightarrow> nat" where
  "outcome_count sub c = length (filter (\<lambda>r. outcome_class r = c) sub)"

fun build_outcome_distribution :: "frame \<Rightarrow> site_selector \<Rightarrow> cell \<Rightarrow> int option" where
  "build_outcome_distribution sub AllSites (CStr s) =
     (if s \<in> set (map launch_site sub) then Some (int (success_count sub s)) else None)"
| "build_outcome_distribution sub AllSites (CInt c) = None"
| "build_outcome_distribution sub (OneSite x) (CInt c) =
     (if c \<in> set (map outcome_class sub) then Some (int (outcome_count sub c)) else None)"
| "build_outcome_distribution sub (OneSite x) (CStr s) = None"

definition pie_well_typed :: "frame \<Rightarrow> string option \<Rightarrow> pie_figure \<Rightarrow> bool" where
  "pie_well_typed df entered_site fig =
     list_all (\<lambda>(l, n). 0 \<le> n \<and>
                  (if entered_site = Some ''ALL''
                   then l \<in> set (map (\<lambda>r. CStr (launch_site r)) df)
                   else l \<in> set (map (\<lambda>r. CInt (outcome_class r))
                                     (filter (\<lambda>r. Some (launch_site r) = entered_site) df))))
              (pie_slices fig)"

subsection \<open>Slice lists as maps\<close>

lemma map_of_keyed:
  "map_of (map (\<lambda>k. (k, g k)) ks) = (\<lambda>l. if l \<in> set ks then Some (g l) else None)"
  by (induction ks) (auto simp: fun_eq_iff)

lemma map_of_pie_sort:
  "distinct (map fst cd) \<Longrightarrow> map_of (pie_sort cd) = map_of cd"
  by (simp add: map_of_inject_set distinct_labels_pie_sort)

lemma map_of_pie_ref:
  "map_of (pie_ref pts)
     = (\<lambda>l. if l \<in> fst ` set (pie_valid pts) then Some (label_total pts l) else None)"
  by (simp add: pie_ref_def map_of_keyed)

lemma map_of_pie_slices_ref:
  "map_of (pie_sort (pie_ref pts))
     = (\<lambda>l. if l \<in> fst ` set (pie_valid pts) then Some (label_total pts l) else None)"
  by (simp add: map_of_pie_sort distinct_labels_pie_ref map_of_pie_ref)

lemma label_total_one_site:
  "label_total (map (\<lambda>r. (CInt (outcome_class r), 1 :: int)) rows) (CInt c)
     = int (outcome_count rows c)"
  by (simp add: label_total_def pie_valid_one_site outcome_count_def filter_map comp_def
                sum_list_triv)

lemma label_total_nonneg: "0 \<le> label_total pts l"
  by (auto simp: label_total_def pie_valid_def intro: sum_list_nonneg)

lemma pie_site_df_matches:
  "v \<noteq> ''ALL'' \<Longrightarrow> pie_site_df df (Some v) = filter (site_matches (selector_of v)) df"
  by (auto simp: pie_site_df_filter selector_of_def intro: filter_cong)

lemma get_pie_chart_well_typed: "pie_well_typed df entered_site (get_pie_chart df entered_site)"
proof (cases "entered_site = Some ''ALL''")
  case True
  then show ?thesis
    by (auto simp: pie_well_typed_def pie_slices_all_sites list_all_iff pie_ref_def
                   label_total_nonneg pie_valid_def)
next
  case False
  then show ?thesis
    by (auto simp: pie_well_typed_def pie_slices_one_site list_all_iff pie_ref_def
                   label_total_nonneg pie_valid_def pie_site_df_filter)
qed

text \<open>
  C22. Refinement of the specification's pie builder: for well-formed data, the pie
  \<open>get_pie_chart\<close> returns, read as a map from labels to values, is
  \<open>buildOutcomeDistribution\<close> of the rows that match the selected site, under the
  selector the dropdown value stands for.
\<close>

theorem get_pie_chart_refines_spec:
  assumes "wf_frame df"
  shows "map_of (pie_slices (get_pie_chart df (Some v)))
       = build_outcome_distribution (filter (site_matches (selector_of v)) df) (selector_of v)"
proof (cases "v = ''ALL''")
  case True
  have "map_of (pie_slices (get_pie_chart df (Some v))) l
      = build_outcome_distribution df AllSites l" for l
    using True assms
    by (cases l) (auto simp: pie_slices_all_sites map_of_pie_slices_ref pie_valid_all_sites
                             label_total_site image_image)
  with True show ?thesis
    by (simp add: selector_of_def fun_eq_iff)
next
  case False
  let ?rows = "pie_site_df df (Some v)"
  have "map_of (pie_slices (get_pie_chart df (Some v))) l
      = build_outcome_distribution ?rows (OneSite v) l" for l
    using False
    by (cases l) (auto simp: pie_slices_one_site map_of_pie_slices_ref pie_valid_one_site
                             label_total_one_site image_image)
  moreover have "?rows = filter (site_matches (OneSite v)) df"
    using pie_site_df_matches [OF False] False by (simp add: selector_of_def)
  ultimately show ?thesis
    using False by (simp add: selector_of_def fun_eq_iff)
qed

theorem get_pie_chart_refines_spec_witness:
  "map_of (pie_slices (get_pie_chart scenario_df (Some ''SiteB'')))
     = build_outcome_distribution (filter (site_matches (OneSite ''SiteB'')) scenario_df)
                                  (OneSite ''SiteB'')"
proof -
  have wf: "wf_frame scenario_df"
    by (simp add: wf_frame_def scenario_df_def)
  show ?thesis
    using get_pie_chart_refines_spec [OF wf, of "''SiteB''"] by (simp add: selector_of_def)
qed

end
