(* ===== verification/Scatter.thy ===== *)
theory Scatter
  imports Row_Filter
begin

text \<open>
  The scatter callback \<open>get_scatter_plot\<close> (src/spacex-dash-app.py, lines 68--91).
  \<open>px.scatter(df, x='Payload Mass (kg)', y='class', color='Booster Version
  Category')\<close> groups the rows by the colour column in order of first appearance and
  emits one trace per group, named by the category, whose points are the group's
  \<open>(payload, class)\<close> pairs in row order. A frame with no row gives no trace.
\<close>

type_synonym point = "int option \<times> int"   \<comment> \<open>x is NaN (\<open>None\<close>) for a missing payload\<close>

record scatter_figure =
  scatter_traces :: "(string \<times> point list) list"
  scatter_title :: string

definition scatter_point :: "launch_record \<Rightarrow> point" where
  "scatter_point r = (payload_mass r, outcome_class r)"

definition color_traces :: "frame \<Rightarrow> (string \<times> point list) list" where
  "color_traces df =
     map (\<lambda>c. (c, map scatter_point (filter (\<lambda>r. booster_category r = c) df)))
         (pd_unique (map booster_category df))"

definition px_scatter :: "frame \<Rightarrow> string \<Rightarrow> scatter_figure" where
  "px_scatter df title = \<lparr>scatter_traces = color_traces df, scatter_title = title\<rparr>"

definition get_scatter_plot ::
  "frame \<Rightarrow> string option \<Rightarrow> int option \<times> int option \<Rightarrow> scatter_figure" where
  "get_scatter_plot spacex_df entered_site payload_range =
     (case payload_range of (low, high) \<Rightarrow>
        if entered_site = Some ''ALL'' then
          px_scatter (scatter_all_df spacex_df low high) ''Payload vs Outcome for All Sites''
        else
          px_scatter (scatter_site_df spacex_df entered_site low high)
                     (''Payload vs Outcome for '' @ py_str entered_site))"

declare scatter_point_def [frame_eval] color_traces_def [frame_eval]
  px_scatter_def [frame_eval] get_scatter_plot_def [frame_eval]

subsection \<open>The plotted rows\<close>

lemma scatter_traces_get_scatter_plot:
  "scatter_traces (get_scatter_plot df entered_site rng)
     = color_traces (scatter_rows df entered_site rng)"
  by (cases rng) (simp add: get_scatter_plot_def px_scatter_def scatter_rows_def)

lemma scatter_title_get_scatter_plot:
  "scatter_title (get_scatter_plot df entered_site rng)
     = (if entered_site = Some ''ALL'' then ''Payload vs Outcome for All Sites''
        else ''Payload vs Outcome for '' @ py_str entered_site)"
  by (cases rng) (simp add: get_scatter_plot_def px_scatter_def)

lemma color_traces_Nil [simp]: "color_traces [] = []"
  by (simp add: color_traces_def)

lemma mset_color_traces:
  "mset (concat (map snd (color_traces rows))) = mset (map scatter_point rows)"
proof -
  have "concat (map snd (color_traces rows))
      = map scatter_point (concat (map (\<lambda>c. filter (\<lambda>r. booster_category r = c) rows)
                                      (pd_unique (map booster_category rows))))"
    by (simp add: color_traces_def map_concat comp_def)
  then show ?thesis
    by (simp only: mset_map mset_group_by_key [of _ booster_category rows] distinct_pd_unique
                   set_pd_unique set_map subset_refl)
qed

lemma color_traces_names: "map fst (color_traces rows) = pd_unique (map booster_category rows)"
  by (simp add: color_traces_def comp_def)

lemma color_traces_nonempty:
  "(c, pts) \<in> set (color_traces rows) \<Longrightarrow> pts \<noteq> []"
  by (auto simp: color_traces_def filter_empty_conv)

text \<open>
  C6. Colouring by booster category neither loses nor duplicates a launch: the points
  of all traces together are, as a multiset, one \<open>(payload, class)\<close> point per row
  the scatter callback selects; no category has two traces and no trace is empty.
\<close>

theorem get_scatter_plot_points:
  "mset (concat (map snd (scatter_traces (get_scatter_plot df v rng))))
     = mset (map scatter_point (scatter_rows df v rng))
   \<and> distinct (map fst (scatter_traces (get_scatter_plot df v rng)))
   \<and> [] \<notin> snd ` set (scatter_traces (get_scatter_plot df v rng))"
  by (auto simp: scatter_traces_get_scatter_plot mset_color_traces color_traces_names
           dest: color_traces_nonempty)

end
