(* ===== verification/App.thy ===== *)
theory App
  imports Pie_Spec Scatter
begin

text \<open>
  The Dash application around the two callbacks (src/spacex-dash-app.py, lines
  13--48 and the two \<open>@app.callback\<close> registrations, lines 50--54 and 68--75).
  The layout fixes the inputs: a dropdown whose options are \<open>'All Sites'\<close> with
  value \<open>'ALL'\<close> followed by the distinct launch sites, and a range slider over
  \<open>[0, 10000]\<close> with step 1000 and marks at every 2500 kg, initially at the
  dataset's payload bounds. The browser state the app reacts to is the record
  \<open>dash_state\<close>: the two input values and the two figures on screen.
  Dash renders the layout, calls every callback once with the initial values, and
  from then on calls a callback again whenever one of its \<open>Input\<close>s changes:
  \<open>get_pie_chart\<close> on a dropdown change only, \<open>get_scatter_plot\<close> on a dropdown
  or slider change. A user event is one of \<open>ui_event\<close>: choosing a dropdown option,
  clearing the dropdown (\<open>dcc.Dropdown\<close> is clearable by default, and a cleared
  single-value dropdown has value \<open>None\<close>), or releasing the slider at two points
  the slider admits (multiples of the step or marks, within the bounds).
\<close>

subsection \<open>Layout\<close>

definition site_dropdown_options :: "frame \<Rightarrow> (string \<times> string) list" where
  "site_dropdown_options df =
     (''All Sites'', ''ALL'') # map (\<lambda>site. (site, site)) (pd_unique (map launch_site df))"

definition site_dropdown_default :: "string option" where
  "site_dropdown_default = Some ''ALL''"

definition slider_min :: int where "slider_min = 0"
definition slider_max :: int where "slider_max = 10000"
definition slider_step :: int where "slider_step = 1000"
definition slider_marks :: "int list" where "slider_marks = [0, 2500, 5000, 7500, 10000]"

definition slider_initial :: "frame \<Rightarrow> int option \<times> int option" where
  "slider_initial df = (min_payload df, max_payload df)"

definition slider_point :: "int \<Rightarrow> bool" where
  "slider_point x =
     (slider_min \<le> x \<and> x \<le> slider_max
      \<and> ((x - slider_min) mod slider_step = 0 \<or> x \<in> set slider_marks))"

subsection \<open>Browser state, events, callback dispatch\<close>

record dash_state =
  site_value :: "string option"
  slider_value :: "int option \<times> int option"
  pie_fig :: pie_figure
  scatter_fig :: scatter_figure

datatype ui_event = SelectSite string | ClearSite | MoveSlider int int

definition app_init :: "frame \<Rightarrow> dash_state" where
  "app_init df =
     \<lparr>site_value = site_dropdown_default, slider_value = slider_initial df,
      pie_fig = get_pie_chart df site_dropdown_default,
      scatter_fig = get_scatter_plot df site_dropdown_default (slider_initial df)\<rparr>"

fun event_allowed :: "frame \<Rightarrow> ui_event \<Rightarrow> bool" where
  "event_allowed df (SelectSite v) = (v \<in> set (map snd (site_dropdown_options df)))"
| "event_allowed df ClearSite = True"
| "event_allowed df (MoveSlider low high) = (slider_point low \<and> slider_point high)"

definition set_site :: "frame \<Rightarrow> dash_state \<Rightarrow> string option \<Rightarrow> dash_state" where
  "set_site df st v =
     st\<lparr>site_value := v, pie_fig := get_pie_chart df v,
        scatter_fig := get_scatter_plot df v (slider_value st)\<rparr>"

fun dispatch :: "frame \<Rightarrow> dash_state \<Rightarrow> ui_event \<Rightarrow> dash_state" where
  "dispatch df st (SelectSite v) = set_site df st (Some v)"
| "dispatch df st ClearSite = set_site df st None"
| "dispatch df st (MoveSlider low high) =
     st\<lparr>slider_value := (Some low, Some high),
        scatter_fig := get_scatter_plot df (site_value st) (Some low, Some high)\<rparr>"

inductive dash_step :: "frame \<Rightarrow> dash_state \<Rightarrow> dash_state \<Rightarrow> bool" for df where
  event: "event_allowed df e \<Longrightarrow> dash_step df st (dispatch df st e)"

inductive reachable :: "frame \<Rightarrow> dash_state \<Rightarrow> bool" for df where
  init: "reachable df (app_init df)"
| step: "reachable df st \<Longrightarrow> dash_step df st st' \<Longrightarrow> reachable df st'"

subsection \<open>Invariants\<close>

definition figures_consistent :: "frame \<Rightarrow> dash_state \<Rightarrow> bool" where
  "figures_consistent df st =
     (pie_fig st = get_pie_chart df (site_value st)
      \<and> scatter_fig st = get_scatter_plot df (site_value st) (slider_value st))"

definition inputs_admissible :: "frame \<Rightarrow> dash_state \<Rightarrow> bool" where
  "inputs_admissible df st =
     ((case site_value st of None \<Rightarrow> True
         | Some v \<Rightarrow> v \<in> set (map snd (site_dropdown_options df)))
      \<and> (slider_value st = slider_initial df
         \<or> (case slider_value st of
              (Some low, Some high) \<Rightarrow> slider_point low \<and> slider_point high
            | _ \<Rightarrow> False)))"

declare site_dropdown_options_def [frame_eval] site_dropdown_default_def [frame_eval]
  slider_min_def [frame_eval] slider_max_def [frame_eval] slider_step_def [frame_eval]
  slider_marks_def [frame_eval] slider_initial_def [frame_eval] slider_point_def [frame_eval]
  app_init_def [frame_eval] set_site_def [frame_eval]

inductive_cases dash_stepE: "dash_step df st st'"

lemma dropdown_values_set:
  "snd ` set (site_dropdown_options df) = insert ''ALL'' (launch_site ` set df)"
  by (simp add: site_dropdown_options_def image_image)

lemma figures_consistent_init: "figures_consistent df (app_init df)"
  by (simp add: figures_consistent_def app_init_def)

lemma figures_consistent_dispatch:
  "figures_consistent df st \<Longrightarrow> figures_consistent df (dispatch df st e)"
  by (cases e) (simp_all add: figures_consistent_def set_site_def)

lemma inputs_admissible_init: "inputs_admissible df (app_init df)"
  by (simp add: inputs_admissible_def app_init_def site_dropdown_default_def
                site_dropdown_options_def)

lemma inputs_admissible_dispatch:
  "inputs_admissible df st \<Longrightarrow> event_allowed df e \<Longrightarrow> inputs_admissible df (dispatch df st e)"
  by (cases e) (auto simp: inputs_admissible_def set_site_def)

lemma reachable_inv:
  assumes "reachable df st"
  shows "figures_consistent df st \<and> inputs_admissible df st"
  using assms
proof (induction rule: reachable.induct)
  case init
  show ?case by (simp add: figures_consistent_init inputs_admissible_init)
next
  case (step st st')
  from step.hyps(2) obtain e where "event_allowed df e" and "st' = dispatch df st e"
    by (auto elim: dash_stepE)
  with step.IH show ?case
    by (simp add: figures_consistent_dispatch inputs_admissible_dispatch)
qed

lemma scenario_move_slider_reachable:
  "reachable scenario_df (dispatch scenario_df (app_init scenario_df) (MoveSlider 0 1000))"
  by (rule reachable.step [OF reachable.init dash_step.event])
     (simp add: slider_point_def slider_min_def slider_max_def slider_step_def)

text \<open>
  C3. In every state the browser can reach, the figures on screen are what the two
  callbacks compute from the current dropdown and slider values: Dash's dispatch
  re-runs each callback whose inputs changed, and no event leaves a stale figure.
\<close>

theorem reachable_figures_match_callbacks:
  assumes "reachable df st"
  shows "pie_fig st = get_pie_chart df (site_value st)
       \<and> scatter_fig st = get_scatter_plot df (site_value st) (slider_value st)"
  using reachable_inv [OF assms] by (simp add: figures_consistent_def)

theorem reachable_figures_match_callbacks_witness:
  "pie_fig (dispatch scenario_df (app_init scenario_df) (MoveSlider 0 1000))
     = get_pie_chart scenario_df (Some ''ALL'')
   \<and> scatter_fig (dispatch scenario_df (app_init scenario_df) (MoveSlider 0 1000))
     = get_scatter_plot scenario_df (Some ''ALL'') (Some 0, Some 1000)"
  using reachable_figures_match_callbacks [OF scenario_move_slider_reachable]
  by (simp add: app_init_def site_dropdown_default_def)

text \<open>
  C11. The pie chart does not depend on the payload slider: two reachable states with
  the same dropdown value show the same pie, whatever their slider ranges. (The
  specification's pie builder takes the filtered subset; the code's pie callback has
  the dropdown as its only input.)
\<close>

theorem pie_ignores_slider:
  assumes "reachable df st1" and "reachable df st2"
    and "site_value st1 = site_value st2"
  shows "pie_fig st1 = pie_fig st2"
  using reachable_inv [OF assms(1)] reachable_inv [OF assms(2)] assms(3)
  by (simp add: figures_consistent_def)

theorem pie_ignores_slider_witness:
  "slider_value (app_init scenario_df)
     \<noteq> slider_value (dispatch scenario_df (app_init scenario_df) (MoveSlider 0 1000))
   \<and> pie_fig (app_init scenario_df)
     = pie_fig (dispatch scenario_df (app_init scenario_df) (MoveSlider 0 1000))"
proof -
  have "site_value (app_init scenario_df)
      = site_value (dispatch scenario_df (app_init scenario_df) (MoveSlider 0 1000))"
    by simp
  with pie_ignores_slider [OF reachable.init scenario_move_slider_reachable]
  have "pie_fig (app_init scenario_df)
      = pie_fig (dispatch scenario_df (app_init scenario_df) (MoveSlider 0 1000))"
    by blast
  moreover have "slider_value (app_init scenario_df) = (Some 500, Some 9000)"
    by (simp add: app_init_def slider_initial_def min_payload_def max_payload_def
                  col_min_def col_max_def scenario_df_def)
  ultimately show ?thesis by simp
qed

text \<open>
  C16. The inputs a reachable state holds are ones the layout admits: the dropdown is
  cleared, \<open>'ALL'\<close> or a launch site of the dataset, and the slider is at its initial
  value (the dataset's payload bounds) or at two points the slider admits.
\<close>

theorem reachable_inputs_admissible:
  assumes "reachable df st"
  shows "(case site_value st of None \<Rightarrow> True
            | Some v \<Rightarrow> v = ''ALL'' \<or> v \<in> launch_site ` set df)
       \<and> (slider_value st = (min_payload df, max_payload df)
          \<or> (\<exists>low high. slider_value st = (Some low, Some high)
                        \<and> slider_point low \<and> slider_point high))"
proof -
  have adm: "inputs_admissible df st"
    using reachable_inv [OF assms] ..
  then have "case site_value st of None \<Rightarrow> True
      | Some v \<Rightarrow> v = ''ALL'' \<or> v \<in> launch_site ` set df"
    by (cases "site_value st") (simp_all add: inputs_admissible_def dropdown_values_set)
  moreover from adm have "slider_value st = (min_payload df, max_payload df)
      \<or> (\<exists>low high. slider_value st = (Some low, Some high)
                     \<and> slider_point low \<and> slider_point high)"
    by (simp only: inputs_admissible_def slider_initial_def case_some_some_iff)
  ultimately show ?thesis ..
qed

theorem reachable_inputs_admissible_witness:
  "(case site_value (dispatch scenario_df (app_init scenario_df) (MoveSlider 0 1000)) of
      None \<Rightarrow> True | Some v \<Rightarrow> v = ''ALL'' \<or> v \<in> launch_site ` set scenario_df)
   \<and> (slider_value (dispatch scenario_df (app_init scenario_df) (MoveSlider 0 1000))
        = (min_payload scenario_df, max_payload scenario_df)
      \<or> (\<exists>low high. slider_value (dispatch scenario_df (app_init scenario_df) (MoveSlider 0 1000))
                     = (Some low, Some high) \<and> slider_point low \<and> slider_point high))"
  by (rule reachable_inputs_admissible [OF scenario_move_slider_reachable])

text \<open>
  C18. The dropdown offers \<open>'ALL'\<close> and every launch site of the dataset, each site
  once; its option values are pairwise distinct exactly when no launch site is itself
  named \<open>'ALL'\<close>, the sentinel the callbacks test for.
\<close>

theorem site_dropdown_values:
  "set (map snd (site_dropdown_options df)) = insert ''ALL'' (launch_site ` set df)
   \<and> (distinct (map snd (site_dropdown_options df)) \<longleftrightarrow> ''ALL'' \<notin> launch_site ` set df)"
  by (simp add: dropdown_values_set) (simp add: site_dropdown_options_def comp_def)

text \<open>
  C20. From every reachable state the user can select any launch site of the dataset
  in one step, and the state reached shows that site's pie.
\<close>

theorem every_site_selectable:
  assumes "reachable df st" and "s \<in> launch_site ` set df"
  shows "\<exists>st'. dash_step df st st' \<and> reachable df st' \<and> site_value st' = Some s
              \<and> pie_fig st' = get_pie_chart df (Some s)"
proof -
  have "event_allowed df (SelectSite s)"
    using assms(2) by (simp add: dropdown_values_set)
  then have step: "dash_step df st (dispatch df st (SelectSite s))"
    by (rule dash_step.event)
  moreover from assms(1) step have "reachable df (dispatch df st (SelectSite s))"
    by (rule reachable.step)
  ultimately show ?thesis
    by (auto simp: set_site_def)
qed

theorem every_site_selectable_witness:
  "\<exists>st'. dash_step scenario_df (app_init scenario_df) st' \<and> reachable scenario_df st'
        \<and> site_value st' = Some ''SiteB'' \<and> pie_fig st' = get_pie_chart scenario_df (Some ''SiteB'')"
  by (rule every_site_selectable [OF reachable.init]) (simp add: scenario_df_def)

end
