(* ===== verification/Loader.thy ===== *)
theory Loader
  imports App
begin

text \<open>
  Where the program can fail: the file read at start-up and the columns the code
  names (src/spacex-dash-app.py, lines 9--11, 25, 57--65, 79--90). A CSV file is
  modelled by its header (the column names) and its rows; \<open>None\<close> is a file that is
  not there. Indexing a frame by a column it lacks, \<open>spacex_df[c]\<close>, raises
  \<open>KeyError\<close>; a plotly express argument naming a column the frame lacks raises
  \<open>ValueError\<close>, checked in the order the arguments are given. Module-level code
  runs at start-up, so an exception on lines 9--11 or on line 25 (the dropdown
  options) stops the program before it serves; an exception inside a callback only
  makes that callback fail. The checked callbacks return the exception or the figure
  of \<open>get_pie_chart\<close> / \<open>get_scatter_plot\<close>.
\<close>

datatype py_error = FileNotFoundError string | KeyError string | ValueError string

type_synonym csv_file = "string list \<times> frame"

definition csv_path :: string where "csv_path = ''spacex_launch_dash.csv''"
definition col_site :: string where "col_site = ''Launch Site''"
definition col_payload :: string where "col_payload = ''Payload Mass (kg)''"
definition col_class :: string where "col_class = ''class''"
definition col_booster :: string where "col_booster = ''Booster Version Category''"

definition check_then :: "py_error + unit \<Rightarrow> py_error + 'a \<Rightarrow> py_error + 'a" where
  "check_then c k = (case c of Inl e \<Rightarrow> Inl e | Inr _ \<Rightarrow> k)"

definition df_getitem :: "string list \<Rightarrow> string \<Rightarrow> py_error + unit" where
  "df_getitem header c = (if c \<in> set header then Inr () else Inl (KeyError c))"

definition px_column :: "string list \<Rightarrow> string \<Rightarrow> py_error + unit" where
  "px_column header c = (if c \<in> set header then Inr () else Inl (ValueError c))"

definition load_dataset :: "csv_file option \<Rightarrow> py_error + csv_file" where
  "load_dataset file =
     (case file of
        None \<Rightarrow> Inl (FileNotFoundError csv_path)
      | Some (header, rows) \<Rightarrow>
          check_then (df_getitem header col_payload)
          (check_then (df_getitem header col_payload)
          (check_then (df_getitem header col_site)
          (Inr (header, rows)))))"

definition get_pie_chart_checked :: "csv_file \<Rightarrow> string option \<Rightarrow> py_error + pie_figure" where
  "get_pie_chart_checked file entered_site =
     (case file of (header, spacex_df) \<Rightarrow>
        if entered_site = Some ''ALL'' then
          check_then (px_column header col_site)
          (check_then (px_column header col_class)
          (Inr (get_pie_chart spacex_df entered_site)))
        else
          check_then (df_getitem header col_site)
          (check_then (px_column header col_class)
          (Inr (get_pie_chart spacex_df entered_site))))"

definition get_scatter_plot_checked ::
  "csv_file \<Rightarrow> string option \<Rightarrow> int option \<times> int option \<Rightarrow> py_error + scatter_figure" where
  "get_scatter_plot_checked file entered_site payload_range =
     (case file of (header, spacex_df) \<Rightarrow>
        let plot =
          check_then (px_column header col_payload)
          (check_then (px_column header col_class)
          (check_then (px_column header col_booster)
          (Inr (get_scatter_plot spacex_df entered_site payload_range))))
        in if entered_site = Some ''ALL'' then check_then (df_getitem header col_payload) plot
           else check_then (df_getitem header col_site)
                  (check_then (df_getitem header col_payload) plot))"

definition required_columns :: "string list" where
  "required_columns = [col_site, col_payload, col_class, col_booster]"

declare csv_path_def [frame_eval] col_site_def [frame_eval] col_payload_def [frame_eval]
  col_class_def [frame_eval] col_booster_def [frame_eval] check_then_def [frame_eval]
  df_getitem_def [frame_eval] px_column_def [frame_eval] load_dataset_def [frame_eval]

lemma check_then_ok [simp]: "c \<in> set header \<Longrightarrow> check_then (df_getitem header c) k = k"
  by (simp add: check_then_def df_getitem_def)

lemma check_then_px_ok [simp]: "c \<in> set header \<Longrightarrow> check_then (px_column header c) k = k"
  by (simp add: check_then_def px_column_def)

lemma check_then_missing [simp]:
  "c \<notin> set header \<Longrightarrow> check_then (df_getitem header c) k = Inl (KeyError c)"
  "c \<notin> set header \<Longrightarrow> check_then (px_column header c) k = Inl (ValueError c)"
  by (simp_all add: check_then_def df_getitem_def px_column_def)

lemma column_names_distinct [simp]:
  "col_site \<noteq> col_class" "col_payload \<noteq> col_class" "col_booster \<noteq> col_class"
  by (simp_all add: col_site_def col_class_def col_payload_def col_booster_def)

text \<open>
  C24. Start-up: a missing file raises \<open>FileNotFoundError\<close>; a file without the
  payload column or without the site column raises \<open>KeyError\<close> (lines 10 and 25);
  any other file loads, whichever other columns it lacks.
\<close>

theorem load_dataset_result:
  "load_dataset None = Inl (FileNotFoundError ''spacex_launch_dash.csv'')
   \<and> load_dataset (Some (header, rows)) =
       (if ''Payload Mass (kg)'' \<notin> set header then Inl (KeyError ''Payload Mass (kg)'')
        else if ''Launch Site'' \<notin> set header then Inl (KeyError ''Launch Site'')
        else Inr (header, rows))"
  by (simp add: load_dataset_def csv_path_def col_payload_def col_site_def check_then_def
                df_getitem_def)

text \<open>
  C25. With all four columns the code names, neither callback raises: the checked
  callbacks return the figures of \<open>get_pie_chart\<close> and \<open>get_scatter_plot\<close>.
\<close>

theorem checked_callbacks_refine:
  assumes "set required_columns \<subseteq> set header"
  shows "get_pie_chart_checked (header, rows) v = Inr (get_pie_chart rows v)
       \<and> get_scatter_plot_checked (header, rows) v rng = Inr (get_scatter_plot rows v rng)"
  using assms
  by (simp add: required_columns_def get_pie_chart_checked_def get_scatter_plot_checked_def
                Let_def)

theorem checked_callbacks_refine_witness:
  "get_pie_chart_checked (required_columns, scenario_df) (Some ''ALL'')
     = Inr (get_pie_chart scenario_df (Some ''ALL''))
   \<and> get_scatter_plot_checked (required_columns, scenario_df) (Some ''ALL'') (Some 0, Some 10000)
     = Inr (get_scatter_plot scenario_df (Some ''ALL'') (Some 0, Some 10000))"
  by (rule checked_callbacks_refine) simp

text \<open>
  C26. A file without the \<open>class\<close> column passes start-up, yet every call of either
  callback raises \<open>ValueError\<close> for \<open>'class'\<close>: the malformed file is not fatal at
  start-up, contrary to the specification's error handling (section 7).
\<close>

theorem missing_class_column:
  assumes "load_dataset (Some (header, rows)) = Inr (header, rows)"
    and "''class'' \<notin> set header"
  shows "get_pie_chart_checked (header, rows) v = Inl (ValueError ''class'')
       \<and> get_scatter_plot_checked (header, rows) v rng = Inl (ValueError ''class'')"
proof -
  have site: "col_site \<in> set header" and payload: "col_payload \<in> set header"
    using assms(1) by (auto simp: load_dataset_def check_then_def df_getitem_def
                            split: if_splits)
  have cls: "col_class \<notin> set header"
    using assms(2) by (simp add: col_class_def)
  show ?thesis
    using site payload cls
    by (auto simp: get_pie_chart_checked_def get_scatter_plot_checked_def Let_def col_class_def
             split: if_splits)
qed

theorem missing_class_column_witness:
  "get_pie_chart_checked ([''Launch Site'', ''Payload Mass (kg)''], scenario_df) (Some ''ALL'')
     = Inl (ValueError ''class'')
   \<and> get_scatter_plot_checked ([''Launch Site'', ''Payload Mass (kg)''], scenario_df)
       (Some ''ALL'') (Some 0, Some 10000) = Inl (ValueError ''class'')"
proof -
  have "load_dataset (Some ([''Launch Site'', ''Payload Mass (kg)''], scenario_df))
      = Inr ([''Launch Site'', ''Payload Mass (kg)''], scenario_df)"
    by (simp add: load_dataset_def check_then_def df_getitem_def col_payload_def col_site_def)
  then show ?thesis
    by (rule missing_class_column) simp
qed

end
