(* ===== verification/Spec2Isabelle.thy ===== *)
theory Spec2Isabelle
  imports Loader
begin

text \<open>
  \<^bold>\<open>SpaceX launch records dashboard: a verification development.\<close>

  \<^bold>\<open>The program.\<close> src/spacex-dash-app.py is a Dash app. At start-up it reads
  the launch table \<open>spacex_df\<close> and its payload bounds \<open>min_payload\<close> and
  \<open>max_payload\<close> (lines 9--11). The layout (lines 17--48) has a site dropdown
  (\<open>'ALL'\<close> and the distinct sites), a payload range slider and two graphs.
  Two callbacks fill the graphs. \<open>get_pie_chart\<close> (lines 50--66) has the
  dropdown as its only input. \<open>get_scatter_plot\<close> (lines 68--91) has the dropdown
  and the slider as inputs. Each callback selects rows with pandas boolean masks and
  hands them to plotly express, which aggregates (pie) or groups by colour (scatter).
  Dash calls both callbacks once at the first render. After that it calls a callback
  again whenever one of its inputs changes.

  \<^bold>\<open>Theories, in import order.\<close>
  \<^item> \<open>Prelude\<close>: the \<open>frame_eval\<close> collection of evaluation equations. Generic
    lemmas: grouping a list by key is a permutation (\<open>mset_group_by_key\<close>), sums of
    0/1 values count the ones, sums are invariant under permutation.
  \<^item> \<open>Dataset\<close> (lines 9--11, 25): the row record \<open>launch_record\<close> and
    \<open>frame\<close>. pandas' \<open>Series.unique\<close> as \<open>pd_unique\<close> and
    \<open>Series.min/max\<close> as \<open>col_min/col_max\<close>, which skip NaN cells
    (\<open>dropna\<close>). The payload column is \<open>int option\<close>, and NaN is \<open>None\<close>.
    \<open>min_payload\<close>, \<open>max_payload\<close>, the 0/1 assumption \<open>wf_frame\<close> and the
    spec's four-launch \<open>scenario_df\<close>.
  \<^item> \<open>Row_Filter\<close> (lines 62, 77--87): the masks \<open>site_mask\<close>,
    \<open>payload_ge_mask\<close>, \<open>payload_le_mask\<close>, \<open>mask_and\<close> and the selection
    \<open>df_where\<close> (\<open>df[mask]\<close>). The pie's \<open>pie_site_df\<close>, the scatter's two
    branches \<open>scatter_all_df\<close>/\<open>scatter_site_df\<close>, and \<open>scatter_rows\<close>, which
    branches on \<open>'ALL'\<close>. Comparisons with NaN or with a cleared dropdown
    (\<open>None\<close>) are false. The specification's Filter Engine is the abstract
    \<open>filter_spec\<close> over a \<open>site_selector\<close>.
  \<^item> \<open>Pie\<close> (lines 50--66): \<open>get_pie_chart\<close> and \<open>px_pie\<close>. \<open>px_pie\<close>
    follows plotly's pie trace: \<open>pie_add\<close>/\<open>pie_calc\<close> build slices incrementally
    in first-appearance order and skip negative values; without a values column each
    row counts 1. \<open>pie_sort\<close> is a stable sort by decreasing value.
    \<open>pie_ref\<close> is the reference aggregation (group, then sum).
  \<^item> \<open>Pie_Spec\<close>: the spec's \<open>buildOutcomeDistribution\<close> as a map from
    labels to values (\<open>build_outcome_distribution\<close>), and the typing of a pie
    figure (\<open>pie_well_typed\<close>).
  \<^item> \<open>Scatter\<close> (lines 68--91): \<open>get_scatter_plot\<close> and \<open>px_scatter\<close>, which
    makes one trace per booster category (\<open>color_traces\<close>).
  \<^item> \<open>App\<close> (lines 22--43 and the callback registrations, lines 51--54 and
    75): the dropdown options,
    the slider (bounds, step, marks, initial value, admitted points), the browser
    state \<open>dash_state\<close> and the events \<open>ui_event\<close>. \<open>app_init\<close> is the first
    render and \<open>dispatch\<close> re-runs the callbacks whose inputs changed. The step
    relation is \<open>dash_step\<close> and its reachable states are \<open>reachable\<close>.
  \<^item> \<open>Loader\<close> (lines 9--11, 25 and the column names in the callbacks): the
    file as a header and rows. \<open>load_dataset\<close> raises \<open>FileNotFoundError\<close> or
    \<open>KeyError\<close>. The checked callbacks raise \<open>KeyError\<close> for \<open>df[c]\<close> and
    \<open>ValueError\<close> for a plotly argument naming an absent column, as values of
    \<open>py_error + _\<close>.
  \<^item> \<open>Spec2Isabelle\<close> (this theory): properties that span the components.

  \<^bold>\<open>What is proved.\<close>
  \<^item> Row selection refines the spec's filter (C1). Plotted rows lie in the
    inclusive range (C7, C8). A crossed range selects nothing (C13). Narrowing the
    range filters the result (C14). In one-site mode the scatter rows are the pie's
    rows restricted to the range (C15). A launch with a NaN payload is never
    plotted (C21).
  \<^item> The incremental pie aggregation equals the reference one
    (\<open>pie_calc_from_ref\<close>). The pie has distinct labels, sums per label and
    decreasing order (C2). In all-sites mode it has one slice per site, valued by
    that site's successes (C4), and the values add up to the dataset's successes
    (C19). In one-site mode it has at most two slices, labelled 0/1, summing to the
    number of rows of the dataset whose site is the selected one (C5). An unknown
    site gives an empty pie (C12). Read as a map, the pie refines the spec's
    \<open>buildOutcomeDistribution\<close> of the site-selected rows (C22). Every pie on
    screen is well typed (C23): non-negative values, and labels that are sites of
    the dataset (all sites) or \<open>class\<close> values of the selected site's launches.
  \<^item> The scatter traces hold each selected row's point exactly once (C6). At
    start-up every launch with a numeric payload is plotted (C10).
  \<^item> The payload bounds, stated over the rows: NaN exactly when no row has a
    numeric payload, otherwise a payload of some row that bounds every numeric
    payload (C9).
  \<^item> Errors: start-up fails exactly for a missing file or a missing payload or site
    column (C24). With all four columns no callback raises (C25). A file without
    \<open>class\<close> loads, but every callback then raises (C26).
  \<^item> State machine, by rule induction over \<open>reachable\<close>: the figures always
    match the callbacks (C3) and inputs stay admissible (C16). The pie ignores the
    slider (C11). A cleared dropdown empties both charts (C17). The dropdown values
    are distinct exactly when no site is named \<open>'ALL'\<close> (C18). From any
    reachable state every site can be selected in one step (C20).

  \<^bold>\<open>Bounds and fuel.\<close> None are needed. Every loop of the program and of the
  libraries it calls is a pass over the frame, and every recursion here is
  structural over a list (\<open>fun\<close>). Python integers are unbounded, so payloads and
  class values are \<open>int\<close>.

  \<^bold>\<open>Not modelled.\<close>
  \<^item> The CSV text syntax that \<open>pd.read_csv\<close> parses: a file is its header and
    rows. Missing cells are modelled in the payload column only; a missing site,
    class or booster cell is not.
  \<^item> What Dash shows after a callback raises (the old figure and an error
    message in debug mode): the checked callbacks stop at the exception.
  \<^item> The HTTP server (\<open>app.run\<close>) and the static page markup.
  \<^item> plotly.js drawing, legend toggling (hidden labels) and turning labels into
    strings. An empty label becomes its row index in plotly; site names here are
    taken to be non-empty.
  \<^item> The widget mechanics of the slider beyond the values it admits. Both handle
    orders are allowed, which covers \<open>allowCross\<close> either way.

  \<^bold>\<open>Further work.\<close>
  \<^item> Prove the scatter trace order and titles per mode.
  \<^item> Instantiate \<open>linorder\<close> on \<open>cell\<close> for sorted label views.
\<close>

subsection \<open>Properties across the components\<close>

lemma scatter_rows_initial_all:
  "scatter_rows df (Some ''ALL'') (slider_initial df) = filter (\<lambda>r. payload_mass r \<noteq> None) df"
proof (cases "payload_values df = []")
  case True
  then have "\<forall>r \<in> set df. payload_mass r = None"
    by (simp add: payload_values_empty_iff)
  with True show ?thesis
    by (simp add: scatter_rows_filter slider_initial_def min_payload_def max_payload_def
                  payload_values_def col_min_Min col_max_Max filter_empty_conv)
next
  case False
  then obtain lo hi where lo: "min_payload df = Some lo" and hi: "max_payload df = Some hi"
    by (simp add: min_payload_def max_payload_def payload_values_def col_min_Min col_max_Max)
  have "\<And>r m. r \<in> set df \<Longrightarrow> payload_mass r = Some m \<Longrightarrow> lo \<le> m \<and> m \<le> hi"
    using payload_within_bounds [OF lo hi] by blast
  then show ?thesis
    by (auto simp: scatter_rows_filter slider_initial_def lo hi intro: filter_cong)
qed

lemma cleared_callbacks:
  "pie_slices (get_pie_chart df None) = [] \<and> scatter_rows df None rng = []"
  by (cases rng) (simp add: pie_slices_one_site pie_site_df_filter scatter_rows_filter)

text \<open>
  C10. At start-up Dash renders the scatter chart with the dropdown at \<open>'ALL'\<close> and
  the slider at the dataset's payload bounds: every launch whose payload cell is a
  number is plotted, exactly once, and no other.
\<close>

theorem initial_view_plots_every_launch:
  "mset (concat (map snd (scatter_traces (scatter_fig (app_init df)))))
     = mset (map scatter_point (filter (\<lambda>r. payload_mass r \<noteq> None) df))"
  by (simp add: app_init_def site_dropdown_default_def scatter_traces_get_scatter_plot
                scatter_rows_initial_all mset_color_traces)

text \<open>
  C17. Clearing the dropdown (its value becomes \<open>None\<close>) leaves both charts empty,
  titled with Python's \<open>str(None)\<close>: neither callback treats a missing site as
  "all sites".
\<close>

theorem cleared_dropdown_empty_charts:
  assumes "reachable df st" and "site_value st = None"
  shows "pie_slices (pie_fig st) = [] \<and> pie_title (pie_fig st) = ''Success vs Failure for None''
       \<and> scatter_traces (scatter_fig st) = []
       \<and> scatter_title (scatter_fig st) = ''Payload vs Outcome for None''"
proof -
  have "figures_consistent df st"
    using reachable_inv [OF assms(1)] ..
  then have pie: "pie_fig st = get_pie_chart df None"
    and sc: "scatter_fig st = get_scatter_plot df None (slider_value st)"
    using assms(2) by (simp_all add: figures_consistent_def)
  show ?thesis
    using cleared_callbacks [of df "slider_value st"]
    by (simp add: pie sc scatter_traces_get_scatter_plot scatter_title_get_scatter_plot
                  py_str_def get_pie_chart_def pie_title_px_pie)
qed

theorem cleared_dropdown_empty_charts_witness:
  "pie_slices (pie_fig (dispatch scenario_df (app_init scenario_df) ClearSite)) = []
   \<and> pie_title (pie_fig (dispatch scenario_df (app_init scenario_df) ClearSite))
       = ''Success vs Failure for None''
   \<and> scatter_traces (scatter_fig (dispatch scenario_df (app_init scenario_df) ClearSite)) = []
   \<and> scatter_title (scatter_fig (dispatch scenario_df (app_init scenario_df) ClearSite))
       = ''Payload vs Outcome for None''"
proof -
  have r: "reachable scenario_df (dispatch scenario_df (app_init scenario_df) ClearSite)"
    by (rule reachable.step [OF reachable.init dash_step.event]) simp
  have "site_value (dispatch scenario_df (app_init scenario_df) ClearSite) = None"
    by (simp add: set_site_def)
  with r show ?thesis by (rule cleared_dropdown_empty_charts)
qed

text \<open>
  C23. Typing of the screen: in every reachable state the pie on screen is well typed
  for the dropdown value: its slice values are non-negative; when \<open>'ALL'\<close> is
  selected its labels are launch sites of the dataset, and otherwise they are
  \<open>class\<close> values of launches from the selected site.
\<close>

theorem reachable_pie_well_typed:
  assumes "reachable df st"
  shows "pie_well_typed df (site_value st) (pie_fig st)"
proof -
  have "figures_consistent df st"
    using reachable_inv [OF assms] ..
  then show ?thesis
    by (simp add: figures_consistent_def get_pie_chart_well_typed)
qed

theorem reachable_pie_well_typed_witness:
  "pie_well_typed scenario_df (site_value (dispatch scenario_df (app_init scenario_df) (MoveSlider 0 1000)))
     (pie_fig (dispatch scenario_df (app_init scenario_df) (MoveSlider 0 1000)))"
  by (rule reachable_pie_well_typed [OF scenario_move_slider_reachable])

end
